theory Spec2Isabelle
  imports Main
begin

section \<open>Values, exceptions and callables\<close>

text \<open>
  The embedded module is \<^verbatim>\<open>sploitkit/core/components/config.py\<close>: the classes
  \<^verbatim>\<open>Config\<close> and \<^verbatim>\<open>Option\<close>.

  Configuration values are Python's \<^verbatim>\<open>None\<close>, booleans, integers and strings.
  A character is a code point below 256, so a string is a Python string of such code
  points; \<^verbatim>\<open>str.isdigit\<close>, \<^verbatim>\<open>str.lower\<close> and \<^verbatim>\<open>int\<close> are modelled on
  all of them. Strings with other code points are outside the model.
\<close>

datatype pyval = PNone | PBool bool | PInt int | PStr string

text \<open>What a call can receive or return: a configuration value or an Option object.\<close>

datatype pyobj = Val pyval | OptionRef nat

text \<open>
  Exceptions. \<open>BaseExc\<close> stands for the exceptions outside the class
  \<^verbatim>\<open>Exception\<close> (\<^verbatim>\<open>SystemExit\<close>, \<^verbatim>\<open>KeyboardInterrupt\<close>), which
  \<^verbatim>\<open>except Exception\<close> does not catch. \<open>RecursionError\<close> is what Python raises
  when the parent delegation of \<^verbatim>\<open>Config.__getitem__\<close> exhausts the call stack.
\<close>

datatype exc =
    KeyError string
  | ValueError string
  | AttributeError string
  | TypeError string
  | RecursionError
  | PyException string
  | UserError string
  | BaseExc string

fun is_Exception :: "exc \<Rightarrow> bool" where
  "is_Exception (BaseExc _) = False"
| "is_Exception _ = True"

text \<open>\<^verbatim>\<open>str(e)\<close>; for a \<^verbatim>\<open>KeyError\<close> it is the \<^verbatim>\<open>repr\<close> of the key, written
  here for a name that needs no escape: the name between apostrophes.\<close>

fun exc_str :: "exc \<Rightarrow> string" where
  "exc_str (KeyError k) = [CHR 0x27] @ k @ [CHR 0x27]"
| "exc_str (ValueError m) = m"
| "exc_str (AttributeError m) = m"
| "exc_str (TypeError m) = m"
| "exc_str RecursionError = ''maximum recursion depth exceeded''"
| "exc_str (PyException m) = m"
| "exc_str (UserError m) = m"
| "exc_str (BaseExc m) = m"

text \<open>
  Function objects. The module itself creates two lambdas: the default hook of
  \<^verbatim>\<open>__set_func\<close>, \<^verbatim>\<open>lambda *a, **kw: a[-1] if len(a) > 0 else None\<close>, and the
  choice validator of \<^verbatim>\<open>__init__\<close>. Every other function is user code, named by its
  \<^verbatim>\<open>__name__\<close> and an identifier whose behaviour the environment gives.
\<close>

datatype funobj = DefaultLambda | ChoicesValidator | UserFun string nat

fun fun_name :: "funobj \<Rightarrow> string" where
  "fun_name DefaultLambda = ''<lambda>''"
| "fun_name ChoicesValidator = ''<lambda>''"
| "fun_name (UserFun nm i) = nm"

text \<open>
  The value of a hook attribute: a bound method (a function and the \<^verbatim>\<open>self\<close> it is
  bound to, what \<^verbatim>\<open>func.__get__(self, self.__class__)\<close> returns) or a plain function.
  \<^verbatim>\<open>isinstance(x, type(lambda:0))\<close> is true of a plain function and false of a
  bound method.
\<close>

datatype attr = Method funobj nat | Function funobj

fun is_function :: "attr \<Rightarrow> bool" where
  "is_function (Function f) = True"
| "is_function (Method f s) = False"

fun attr_name :: "attr \<Rightarrow> string" where
  "attr_name (Function f) = fun_name f"
| "attr_name (Method f s) = fun_name f"

text \<open>An actual argument for a hook parameter of the constructor.\<close>

datatype hookarg = CallableArg attr | ValueArg pyval

section \<open>Strings\<close>

text \<open>The decimal digits \<^verbatim>\<open>0-9\<close>: the characters of \<^verbatim>\<open>str.isdecimal\<close>, which are
  the ones \<^verbatim>\<open>int\<close> accepts.\<close>

definition isdecimal_char :: "char \<Rightarrow> bool" where
  "isdecimal_char c = (48 \<le> (of_char c :: nat) \<and> (of_char c :: nat) \<le> 57)"

text \<open>The characters of \<^verbatim>\<open>str.isdigit\<close> below 256: the decimal digits and the
  superscripts two, three and one (U+00B2, U+00B3, U+00B9).\<close>

definition isdigit_char :: "char \<Rightarrow> bool" where
  "isdigit_char c =
     (isdecimal_char c \<or> (of_char c :: nat) = 178 \<or> (of_char c :: nat) = 179
        \<or> (of_char c :: nat) = 185)"

definition islower_char :: "char \<Rightarrow> bool" where
  "islower_char c = (97 \<le> (of_char c :: nat) \<and> (of_char c :: nat) \<le> 122)"

text \<open>\<^verbatim>\<open>str.lower\<close> on one character below 256: the letters \<^verbatim>\<open>A-Z\<close> and the
  upper-case letters U+00C0 to U+00DE (U+00D7 is the multiplication sign) move up by 32;
  every other character is its own lower case.\<close>

definition lower_char :: "char \<Rightarrow> char" where
  "lower_char c =
     (if (65 \<le> (of_char c :: nat) \<and> (of_char c :: nat) \<le> 90)
         \<or> (192 \<le> (of_char c :: nat) \<and> (of_char c :: nat) \<le> 222
             \<and> (of_char c :: nat) \<noteq> 215)
      then char_of ((of_char c :: nat) + 32) else c)"

text \<open>\<^verbatim>\<open>str.isdigit\<close>: non-empty and every character a digit.\<close>

definition isdigit :: "string \<Rightarrow> bool" where
  "isdigit s = (s \<noteq> [] \<and> list_all isdigit_char s)"

definition lower :: "string \<Rightarrow> string" where
  "lower s = map lower_char s"

definition endswith :: "string \<Rightarrow> string \<Rightarrow> bool" where
  "endswith s suf = (length suf \<le> length s \<and> drop (length s - length suf) s = suf)"

text \<open>The value of a string of decimal digits.\<close>

definition int_of_digits :: "string \<Rightarrow> int" where
  "int_of_digits s = foldl (\<lambda>acc c. 10 * acc + (int (of_char c) - 48)) 0 s"

text \<open>\<^verbatim>\<open>str(n)\<close> for an integer.\<close>

fun digits_of_nat :: "nat \<Rightarrow> string" where
  "digits_of_nat n =
     (if n < 10 then [char_of (48 + n)]
      else digits_of_nat (n div 10) @ [char_of (48 + n mod 10)])"

definition str_int :: "int \<Rightarrow> string" where
  "str_int i = (if i < 0 then CHR ''-'' # digits_of_nat (nat (- i)) else digits_of_nat (nat i))"

fun str :: "pyval \<Rightarrow> string" where
  "str PNone = ''None''"
| "str (PBool b) = (if b then ''True'' else ''False'')"
| "str (PInt i) = str_int i"
| "str (PStr s) = s"

text \<open>
  The interpreter's limit on the number of digits of a conversion between \<^verbatim>\<open>int\<close>
  and \<^verbatim>\<open>str\<close> (\<^verbatim>\<open>sys.get_int_max_str_digits()\<close>): \<open>lim\<close> is 0 when there is no
  limit; otherwise a conversion of more than \<open>lim\<close> digits raises \<^verbatim>\<open>ValueError\<close>.
\<close>

definition within_limit :: "nat \<Rightarrow> nat \<Rightarrow> bool" where
  "within_limit lim n = (lim = 0 \<or> n \<le> lim)"

text \<open>
  \<^verbatim>\<open>int(s)\<close> on a string for which \<^verbatim>\<open>s.isdigit()\<close> holds: it raises
  \<^verbatim>\<open>ValueError\<close> when a character is not a decimal digit and when there are more
  digits than the limit. The messages are abbreviated.
\<close>

definition py_int :: "nat \<Rightarrow> string \<Rightarrow> exc + int" where
  "py_int lim s =
     (if \<not> list_all isdecimal_char s
      then Inl (ValueError ''invalid literal for int() with base 10'')
      else if \<not> within_limit lim (length s)
      then Inl (ValueError ''Exceeds the limit for integer string conversion'')
      else Inr (int_of_digits s))"

text \<open>\<^verbatim>\<open>str(v)\<close>: for an integer with more digits than the limit it raises
  \<^verbatim>\<open>ValueError\<close>.\<close>

definition py_str :: "nat \<Rightarrow> pyval \<Rightarrow> exc + string" where
  "py_str lim v =
     (case v of
        PInt i \<Rightarrow>
          if within_limit lim (length (digits_of_nat (nat \<bar>i\<bar>))) then Inr (str_int i)
          else Inl (ValueError ''Exceeds the limit for integer string conversion'')
      | _ \<Rightarrow> Inr (str v))"

text \<open>\<^verbatim>\<open>[str(_).lower() for _ in xs]\<close>, from left to right.\<close>

fun str_lower_all :: "nat \<Rightarrow> pyval list \<Rightarrow> exc + string list" where
  "str_lower_all lim [] = Inr []"
| "str_lower_all lim (x # xs) =
     (case py_str lim x of
        Inl e \<Rightarrow> Inl e
      | Inr s \<Rightarrow>
          (case str_lower_all lim xs of
             Inl e \<Rightarrow> Inl e
           | Inr ss \<Rightarrow> Inr (lower s # ss)))"

text \<open>Truth value of an object: an Option defines neither \<^verbatim>\<open>__bool__\<close> nor
  \<^verbatim>\<open>__len__\<close>, so it is true.\<close>

fun truthy :: "pyobj \<Rightarrow> bool" where
  "truthy (Val PNone) = False"
| "truthy (Val (PBool b)) = b"
| "truthy (Val (PInt i)) = (i \<noteq> 0)"
| "truthy (Val (PStr s)) = (s \<noteq> [])"
| "truthy (OptionRef r) = True"

text \<open>
  \<^verbatim>\<open>re.findall(r'\{([a-z]+)\}', s)\<close>: the names of the non-overlapping
  placeholders, scanning from the left.
\<close>

function findall :: "string \<Rightarrow> string list" where
  "findall [] = []"
| "findall (c # cs) =
     (if c = CHR ''{'' \<and> takeWhile islower_char cs \<noteq> []
         \<and> dropWhile islower_char cs \<noteq> []
         \<and> hd (dropWhile islower_char cs) = CHR ''}''
      then takeWhile islower_char cs # findall (tl (dropWhile islower_char cs))
      else findall cs)"
  by pat_completeness auto
termination
  by (relation "measure length")
     (auto simp: less_Suc_eq_le intro: le_trans [OF diff_le_self length_dropWhile_le])

section \<open>Objects and the heap\<close>

text \<open>
  Objects live in a heap and are named by their addresses, so that two scopes can hold the
  same Option and a child scope can reach its parent. The attributes follow the source:
  \<open>config\<close> is \<open>None\<close> while the Option has no \<^verbatim>\<open>config\<close> attribute (it is unbound),
  \<open>reset\<close> is \<^verbatim>\<open>_reset\<close>.
\<close>

record Option_obj =
  name :: string
  description :: pyval
  required :: bool
  choices :: "pyval list option"
  transform :: attr
  validate :: attr
  callback :: attr
  config :: "nat option"
  old_value :: pyval
  reset :: bool

text \<open>
  A \<^verbatim>\<open>Config\<close>: \<open>Config_d\<close> is the private dictionary \<^verbatim>\<open>self.__d\<close> from a name to
  the pair (Option, raw value); \<open>dict_items\<close> is the storage of the \<^verbatim>\<open>dict\<close> base
  class, keyed by the Option object; \<open>console\<close> is \<open>None\<close> while the instance has no
  \<^verbatim>\<open>console\<close> attribute; \<open>last_error\<close> is \<^verbatim>\<open>_last_error\<close>.
\<close>

record Config_obj =
  Config_d :: "string \<rightharpoonup> (nat \<times> pyval)"
  dict_items :: "nat \<rightharpoonup> pyval"
  console :: "nat option"
  last_error :: "string option"

text \<open>
  The console is an external collaborator; the module reads its \<^verbatim>\<open>parent\<close>, its
  \<^verbatim>\<open>config\<close> and its \<^verbatim>\<open>__dict__\<close>, and calls its \<^verbatim>\<open>reset()\<close>.
\<close>

record Console_obj =
  console_parent :: "nat option"
  console_config :: nat
  console_dict :: "string \<rightharpoonup> pyval"

text \<open>
  \<open>instances\<close> is the class attribute \<^verbatim>\<open>Option._instances\<close>, keyed by \<^verbatim>\<open>id(parent)\<close>
  (the address of the Config) and then by name. \<open>next_option\<close> is the address the next
  constructed Option receives.
\<close>

record heap =
  options :: "nat \<Rightarrow> Option_obj"
  next_option :: nat
  configs :: "nat \<Rightarrow> Config_obj"
  consoles :: "nat \<Rightarrow> Console_obj"
  instances :: "nat \<Rightarrow> string \<rightharpoonup> nat"

text \<open>
  What the module takes from outside: the behaviour of user functions (by identifier, on
  their positional arguments), Python's \<^verbatim>\<open>str.format(**kw)\<close> on a string with
  replacement fields (\<open>None\<close> when it raises), \<^verbatim>\<open>str(Path(value, expand=True))\<close> of
  \<^verbatim>\<open>sploitkit.utils.path\<close>, the console's \<^verbatim>\<open>reset()\<close>, and the interpreter's
  limit on integer string conversions (0 for none).
\<close>

record env =
  fun_body :: "nat \<Rightarrow> pyobj list \<Rightarrow> heap \<Rightarrow> (exc + pyval) \<times> heap"
  str_format :: "string \<Rightarrow> (string \<times> pyval) list \<Rightarrow> string option"
  path_expand :: "pyval \<Rightarrow> exc + string"
  console_reset :: "nat \<Rightarrow> heap \<Rightarrow> (exc + unit) \<times> heap"
  max_str_digits :: nat

section \<open>Option: construction, binding and copy\<close>

text \<open>
  The actual arguments of \<^verbatim>\<open>Option(name, description=None, required=False,
  choices=None, transform=None, validate=None, callback=None)\<close>. \<open>ChoicesBool\<close> is the
  type \<^verbatim>\<open>bool\<close> given as \<^verbatim>\<open>choices\<close>; a hook argument is \<open>None\<close> when omitted.
\<close>

datatype choices_arg = ChoicesNone | ChoicesBool | ChoicesList "pyval list"

record init_args =
  arg_name :: string
  arg_description :: pyval
  arg_required :: bool
  arg_choices :: choices_arg
  arg_transform :: "hookarg option"
  arg_validate :: "hookarg option"
  arg_callback :: "hookarg option"

text \<open>\<^verbatim>\<open>Option(name)\<close>: every other parameter at its default.\<close>

definition default_args :: "string \<Rightarrow> init_args" where
  "default_args nm =
     \<lparr>arg_name = nm, arg_description = PNone, arg_required = False,
      arg_choices = ChoicesNone, arg_transform = None, arg_validate = None,
      arg_callback = None\<rparr>"

text \<open>
  \<^verbatim>\<open>Option.__set_func(func, name)\<close> on the object at address \<open>self\<close>: the attribute
  it sets, or the exception it raises. A missing function becomes the default lambda; a
  plain function is bound to the instance; anything else, a bound method included, is
  refused.
\<close>

definition set_func :: "hookarg option \<Rightarrow> string \<Rightarrow> nat \<Rightarrow> exc + attr" where
  "set_func func nm self =
     (case (case func of None \<Rightarrow> CallableArg (Function DefaultLambda) | Some a \<Rightarrow> a) of
        CallableArg (Function f) \<Rightarrow> Inr (Method f self)
      | CallableArg (Method f s) \<Rightarrow> Inl (PyException (''Bad '' @ nm @ '' lambda''))
      | ValueArg v \<Rightarrow> Inl (PyException (''Bad '' @ nm @ '' lambda'')))"

text \<open>
  \<^verbatim>\<open>Option.__init__\<close>: the new object takes the address \<open>next_option\<close>. The class
  attributes give \<^verbatim>\<open>_reset = False\<close> and \<^verbatim>\<open>old_value = None\<close>. When a hook is
  refused the constructor raises and the heap is as before.
\<close>

definition Option_init :: "init_args \<Rightarrow> heap \<Rightarrow> (exc + nat) \<times> heap" where
  "Option_init a h =
     (let self = next_option h;
          chs = (case arg_choices a of
                   ChoicesNone \<Rightarrow> None
                 | ChoicesBool \<Rightarrow> Some [PStr ''true'', PStr ''false'']
                 | ChoicesList xs \<Rightarrow> Some xs);
          vd = (if arg_validate a = None \<and> chs \<noteq> None
                then Some (CallableArg (Function ChoicesValidator)) else arg_validate a)
      in case set_func (arg_transform a) ''transform'' self of
           Inl e \<Rightarrow> (Inl e, h)
         | Inr t \<Rightarrow>
             (case set_func vd ''validate'' self of
                Inl e \<Rightarrow> (Inl e, h)
              | Inr v \<Rightarrow>
                  (case set_func (arg_callback a) ''callback'' self of
                     Inl e \<Rightarrow> (Inl e, h)
                   | Inr cb \<Rightarrow>
                       (Inr self,
                        h\<lparr>options := (options h)(self :=
                             \<lparr>name = arg_name a, description = arg_description a,
                              required = arg_required a, choices = chs,
                              transform = t, validate = v, callback = cb,
                              config = None, old_value = PNone, reset = False\<rparr>),
                          next_option := Suc self\<rparr>))))"

text \<open>
  \<^verbatim>\<open>Option.bind(parent)\<close>: the canonical instance for this name in the scope
  \<open>parent\<close>, and the heap with the registry and the \<^verbatim>\<open>config\<close> link updated.
\<close>

definition Option_bind :: "nat \<Rightarrow> nat \<Rightarrow> heap \<Rightarrow> nat \<times> heap" where
  "Option_bind self parent h =
     (let nm = name (options h self) in
      case instances h parent nm of
        None \<Rightarrow>
          (self,
           h\<lparr>options := (options h)(self := (options h self)\<lparr>config := Some parent\<rparr>),
             instances := (instances h)(parent := (instances h parent)(nm \<mapsto> self))\<rparr>)
      | Some r \<Rightarrow>
          (r, h\<lparr>options := (options h)(r := (options h r)\<lparr>config := Some parent\<rparr>)\<rparr>))"

text \<open>\<^verbatim>\<open>Option.copy()\<close>: the constructor on the attributes of \<open>self\<close>.\<close>

definition Option_copy :: "nat \<Rightarrow> heap \<Rightarrow> (exc + nat) \<times> heap" where
  "Option_copy self h =
     (let ob = options h self in
      Option_init
        \<lparr>arg_name = name ob, arg_description = description ob,
         arg_required = required ob,
         arg_choices = (case choices ob of None \<Rightarrow> ChoicesNone | Some xs \<Rightarrow> ChoicesList xs),
         arg_transform = Some (CallableArg (transform ob)),
         arg_validate = Some (CallableArg (validate ob)),
         arg_callback = Some (CallableArg (callback ob))\<rparr> h)"

section \<open>Config: reading\<close>

text \<open>
  A key is an Option, a name, or (on assignment) a tuple of constructor arguments.
\<close>

datatype key = KOption nat | KName string | KTuple init_args

text \<open>The scope that \<^verbatim>\<open>self.console.parent.config\<close> names, when
  \<^verbatim>\<open>hasattr(self, "console") and self.console.parent is not None\<close>.\<close>

definition parent_config :: "heap \<Rightarrow> nat \<Rightarrow> nat option" where
  "parent_config h c =
     (case console (configs h c) of
        None \<Rightarrow> None
      | Some con \<Rightarrow>
          (case console_parent (consoles h con) of
             None \<Rightarrow> None
           | Some p \<Rightarrow> Some (console_config (consoles h p))))"

text \<open>
  \<^verbatim>\<open>Config.__getitem__\<close> on a name. \<open>depth\<close> is the number of nested calls the
  interpreter still allows: a chain of parents longer than that ends in
  \<^verbatim>\<open>RecursionError\<close>, as it does in Python.
\<close>

fun getitem :: "nat \<Rightarrow> heap \<Rightarrow> nat \<Rightarrow> string \<Rightarrow> exc + pyval" where
  "getitem 0 h c k =
     (case Config_d (configs h c) k of
        Some (r, v) \<Rightarrow> Inr v
      | None \<Rightarrow>
          (case parent_config h c of
             None \<Rightarrow> Inl (KeyError k)
           | Some p \<Rightarrow> Inl RecursionError))"
| "getitem (Suc n) h c k =
     (case Config_d (configs h c) k of
        Some (r, v) \<Rightarrow> Inr v
      | None \<Rightarrow>
          (case parent_config h c of
             None \<Rightarrow> Inl (KeyError k)
           | Some p \<Rightarrow> getitem n h p k))"

text \<open>
  \<^verbatim>\<open>Config.__getitem__\<close> on a key that no \<^verbatim>\<open>self.__d\<close> has: every scope of the
  chain misses it and delegates.
\<close>

fun getitem_missing :: "nat \<Rightarrow> heap \<Rightarrow> nat \<Rightarrow> string \<Rightarrow> exc + pyval" where
  "getitem_missing 0 h c k =
     (case parent_config h c of
        None \<Rightarrow> Inl (KeyError k)
      | Some p \<Rightarrow> Inl RecursionError)"
| "getitem_missing (Suc n) h c k =
     (case parent_config h c of
        None \<Rightarrow> Inl (KeyError k)
      | Some p \<Rightarrow> getitem_missing n h p k)"

text \<open>
  \<^verbatim>\<open>Config.__getitem__(key)\<close>: an Option key is replaced by its name. A tuple is never
  a key of \<^verbatim>\<open>self.__d\<close>, whose keys are names; the \<^verbatim>\<open>KeyError\<close> that ends its
  delegation is written with the tuple's first component.
\<close>

definition Config_getitem :: "nat \<Rightarrow> heap \<Rightarrow> nat \<Rightarrow> key \<Rightarrow> exc + pyval" where
  "Config_getitem depth h c key =
     (case key of
        KOption r \<Rightarrow> getitem depth h c (name (options h r))
      | KName k \<Rightarrow> getitem depth h c k
      | KTuple a \<Rightarrow> getitem_missing depth h c (arg_name a))"

text \<open>\<^verbatim>\<open>Config.option(key)\<close> on a name: the Option stored with it.\<close>

fun Config_option :: "nat \<Rightarrow> heap \<Rightarrow> nat \<Rightarrow> string \<Rightarrow> exc + nat" where
  "Config_option 0 h c k =
     (case Config_d (configs h c) k of
        Some (r, v) \<Rightarrow> Inr r
      | None \<Rightarrow>
          (case parent_config h c of
             None \<Rightarrow> Inl (KeyError k)
           | Some p \<Rightarrow> Inl RecursionError))"
| "Config_option (Suc n) h c k =
     (case Config_d (configs h c) k of
        Some (r, v) \<Rightarrow> Inr r
      | None \<Rightarrow>
          (case parent_config h c of
             None \<Rightarrow> Inl (KeyError k)
           | Some p \<Rightarrow> Config_option n h p k))"

section \<open>Option: the value pipeline\<close>

text \<open>\<^verbatim>\<open>Option.input\<close>: the raw value, read through the scope the Option is bound to.\<close>

definition Option_input :: "nat \<Rightarrow> heap \<Rightarrow> nat \<Rightarrow> exc + pyval" where
  "Option_input depth h self =
     (case config (options h self) of
        None \<Rightarrow> Inl (PyException (''Unbound option '' @ name (options h self)))
      | Some c \<Rightarrow> Config_getitem depth h c (KOption self))"

text \<open>
  \<^verbatim>\<open>value.format(**kw)\<close> on a string: a string without braces has no replacement
  field and no escape, and comes back as it is; the field syntax is left to the
  environment (\<open>None\<close> when \<^verbatim>\<open>format\<close> raises).
\<close>

definition py_format :: "env \<Rightarrow> string \<Rightarrow> (string \<times> pyval) list \<Rightarrow> string option" where
  "py_format env s kw =
     (if CHR ''{'' \<in> set s \<or> CHR ''}'' \<in> set s then str_format env s kw else Some s)"

text \<open>
  Lines 172-182 of \<^verbatim>\<open>Option.value\<close>. \<^verbatim>\<open>str(value)\<close> can raise \<^verbatim>\<open>ValueError\<close>
  (an integer over the digit limit), which \<^verbatim>\<open>except AttributeError\<close> does not catch.
  The keyword arguments are the console's attributes named by the placeholders
  (\<^verbatim>\<open>""\<close> for a missing one). Reaching for \<^verbatim>\<open>self.config.console\<close> raises
  \<^verbatim>\<open>AttributeError\<close> when there is none, which skips the stage; it is reached only
  when there is a placeholder. A value without a \<^verbatim>\<open>format\<close> method, or a
  \<^verbatim>\<open>format\<close> that raises, leaves the value as it was.
\<close>

definition expand_format :: "env \<Rightarrow> heap \<Rightarrow> nat \<Rightarrow> pyval \<Rightarrow> exc + pyval" where
  "expand_format env h self v =
     (case py_str (max_str_digits env) v of
        Inl e \<Rightarrow> Inl e
      | Inr sv \<Rightarrow>
          (let ns = findall sv;
               kw = (if ns = [] then Some []
                     else (case config (options h self) of
                             None \<Rightarrow> None
                           | Some c \<Rightarrow>
                               (case console (configs h c) of
                                  None \<Rightarrow> None
                                | Some con \<Rightarrow>
                                    Some (map (\<lambda>n. (n, case console_dict (consoles h con) n of
                                                          None \<Rightarrow> PStr []
                                                        | Some a \<Rightarrow> a)) ns))))
           in case kw of
                None \<Rightarrow> Inr v
              | Some kws \<Rightarrow>
                  (case v of
                     PStr s \<Rightarrow>
                       (case py_format env s kws of None \<Rightarrow> Inr v | Some s' \<Rightarrow> Inr (PStr s'))
                   | _ \<Rightarrow> Inr v)))"

text \<open>
  Lines 188-194, with the digit limit \<open>lim\<close>. A value without \<^verbatim>\<open>isdigit\<close> raises
  \<^verbatim>\<open>AttributeError\<close>, which is caught; so does the integer just converted, at
  \<^verbatim>\<open>value.lower()\<close>. A \<^verbatim>\<open>ValueError\<close> of \<^verbatim>\<open>int(value)\<close> is not caught.
\<close>

fun coerce :: "nat \<Rightarrow> pyval \<Rightarrow> exc + pyval" where
  "coerce lim (PStr s) =
     (if isdigit s
      then (case py_int lim s of Inl e \<Rightarrow> Inl e | Inr i \<Rightarrow> Inr (PInt i))
      else if lower s = ''false'' \<or> lower s = ''true'' then Inr (PBool (lower s = ''true''))
      else Inr (PStr s))"
| "coerce lim v = Inr v"

text \<open>\<^verbatim>\<open>self.transform(value)\<close> for a plain function: it receives the value alone. The
  choice validator reads \<^verbatim>\<open>s.value\<close>, which a configuration value does not have.\<close>

fun apply_function :: "env \<Rightarrow> funobj \<Rightarrow> pyval \<Rightarrow> heap \<Rightarrow> (exc + pyval) \<times> heap" where
  "apply_function env DefaultLambda v h = (Inr v, h)"
| "apply_function env ChoicesValidator v h = (Inl (AttributeError ''value''), h)"
| "apply_function env (UserFun nm i) v h = fun_body env i [Val v] h"

text \<open>
  \<^verbatim>\<open>Option.value\<close>. The transform is applied when the attribute is an instance of the
  function type and its name is that of a lambda.
\<close>

definition Option_value :: "nat \<Rightarrow> env \<Rightarrow> nat \<Rightarrow> heap \<Rightarrow> (exc + pyval) \<times> heap" where
  "Option_value depth env self h =
     (case Option_input depth h self of
        Inl e \<Rightarrow> (Inl e, h)
      | Inr v0 \<Rightarrow>
          if required (options h self) \<and> v0 = PNone
          then (Inl (ValueError (name (options h self) @ '' must be defined'')), h)
          else
            (case expand_format env h self v0 of
               Inl e \<Rightarrow> (Inl e, h)
             | Inr v1 \<Rightarrow>
                 (case (if endswith (name (options h self)) ''FOLDER''
                           \<or> endswith (name (options h self)) ''WORKSPACE''
                        then (case path_expand env v1 of
                                Inl e \<Rightarrow> Inl e
                              | Inr p \<Rightarrow> Inr (PStr p))
                        else Inr v1) of
                    Inl e \<Rightarrow> (Inl e, h)
                  | Inr v2 \<Rightarrow>
                      (case coerce (max_str_digits env) v2 of
                         Inl e \<Rightarrow> (Inl e, h)
                       | Inr v3 \<Rightarrow>
                           (case transform (options h self) of
                              Function f \<Rightarrow>
                                if fun_name f = ''<lambda>'' then apply_function env f v3 h
                                else (Inr v3, h)
                            | Method f s \<Rightarrow> (Inr v3, h))))))"

section \<open>Calling the hooks\<close>

text \<open>
  A function object on its positional arguments. The choice validator is
  \<^verbatim>\<open>lambda s: str(s.value).lower() in [str(_).lower() for _ in s.choices]\<close>.
\<close>

fun call_function ::
  "nat \<Rightarrow> env \<Rightarrow> funobj \<Rightarrow> pyobj list \<Rightarrow> heap \<Rightarrow> (exc + pyobj) \<times> heap" where
  "call_function depth env DefaultLambda args h =
     (Inr (if args = [] then Val PNone else last args), h)"
| "call_function depth env ChoicesValidator args h =
     (case args of
        [OptionRef s] \<Rightarrow>
          (case Option_value depth env s h of
             (Inl e, h') \<Rightarrow> (Inl e, h')
           | (Inr v, h') \<Rightarrow>
               (case py_str (max_str_digits env) v of
                  Inl e \<Rightarrow> (Inl e, h')
                | Inr sv \<Rightarrow>
                    (case choices (options h' s) of
                       None \<Rightarrow> (Inl (TypeError ''object is not iterable''), h')
                     | Some cs \<Rightarrow>
                         (case str_lower_all (max_str_digits env) cs of
                            Inl e \<Rightarrow> (Inl e, h')
                          | Inr ls \<Rightarrow> (Inr (Val (PBool (lower sv \<in> set ls))), h')))))
      | [Val v] \<Rightarrow> (Inl (AttributeError ''value''), h)
      | _ \<Rightarrow> (Inl (TypeError ''<lambda>() takes 1 positional argument''), h))"
| "call_function depth env (UserFun nm i) args h =
     (case fun_body env i args h of
        (Inl e, h') \<Rightarrow> (Inl e, h')
      | (Inr v, h') \<Rightarrow> (Inr (Val v), h'))"

text \<open>Calling a hook attribute: a bound method passes its \<^verbatim>\<open>self\<close> first.\<close>

fun call_attr ::
  "nat \<Rightarrow> env \<Rightarrow> attr \<Rightarrow> pyobj list \<Rightarrow> heap \<Rightarrow> (exc + pyobj) \<times> heap" where
  "call_attr depth env (Function f) args h = call_function depth env f args h"
| "call_attr depth env (Method f s) args h = call_function depth env f (OptionRef s # args) h"

section \<open>Config: assignment\<close>

text \<open>
  Lines 34-37 of \<^verbatim>\<open>Config.__setitem__\<close>: a key that is not an Option is made into a
  tuple and given to the constructor.
\<close>

definition make_key :: "key \<Rightarrow> heap \<Rightarrow> (exc + nat) \<times> heap" where
  "make_key key h =
     (case key of
        KOption r \<Rightarrow> (Inr r, h)
      | KName k \<Rightarrow> Option_init (default_args k) h
      | KTuple a \<Rightarrow> Option_init a h)"

text \<open>
  Lines 34-45: the key is made canonical by \<^verbatim>\<open>bind\<close>, \<^verbatim>\<open>old_value\<close> is set (to the
  resolved value when the name has an entry in \<^verbatim>\<open>self.__d\<close>, whose pair is always
  true), and the pair (Option, raw value) is stored. The result is the canonical key.
\<close>

definition setitem_store ::
  "nat \<Rightarrow> env \<Rightarrow> nat \<Rightarrow> key \<Rightarrow> pyval \<Rightarrow> heap \<Rightarrow> (exc + nat) \<times> heap" where
  "setitem_store depth env self key v h =
     (case make_key key h of
        (Inl e, h0) \<Rightarrow> (Inl e, h0)
      | (Inr tmp, h0) \<Rightarrow>
          (case Option_bind tmp self h0 of
             (k, h1) \<Rightarrow>
               (case (if Config_d (configs h1 self) (name (options h1 k)) \<noteq> None
                      then Option_value depth env k h1 else (Inr PNone, h1)) of
                  (Inl e, h2) \<Rightarrow> (Inl e, h2)
                | (Inr ov, h2) \<Rightarrow>
                    (let h3 = h2\<lparr>options := (options h2)(k := (options h2 k)\<lparr>old_value := ov\<rparr>)\<rparr>;
                         h4 = h3\<lparr>configs := (configs h3)(self := (configs h3 self)
                                \<lparr>Config_d := (Config_d (configs h3 self))
                                     (name (options h3 k) \<mapsto> (k, v))\<rparr>)\<rparr>
                     in (Inr k, h4)))))"

text \<open>What the assignment calls outside the module, in the order of the calls.\<close>

datatype event = CallbackCall nat | ResetCall nat

text \<open>Lines 54-55: \<^verbatim>\<open>if key._reset: self.console.reset()\<close>.\<close>

definition setitem_reset ::
  "env \<Rightarrow> nat \<Rightarrow> nat \<Rightarrow> heap \<Rightarrow> (exc + unit) \<times> heap \<times> event list" where
  "setitem_reset env self k h =
     (if reset (options h k)
      then (case console (configs h self) of
              None \<Rightarrow> (Inl (AttributeError ''console''), h, [])
            | Some con \<Rightarrow>
                (case console_reset env con h of (r, h') \<Rightarrow> (r, h', [ResetCall con])))
      else (Inr (), h, []))"

text \<open>Line 52: \<^verbatim>\<open>self._last_error = str(e)\<close>.\<close>

definition set_last_error :: "nat \<Rightarrow> string \<Rightarrow> heap \<Rightarrow> heap" where
  "set_last_error self msg h =
     h\<lparr>configs := (configs h)(self := (configs h self)\<lparr>last_error := Some msg\<rparr>)\<rparr>"

text \<open>Line 48: \<^verbatim>\<open>super(Config, self).__setitem__(key, value)\<close>.\<close>

definition dict_setitem :: "nat \<Rightarrow> nat \<Rightarrow> pyval \<Rightarrow> heap \<Rightarrow> heap" where
  "dict_setitem self k v h =
     h\<lparr>configs := (configs h)(self := (configs h self)
          \<lparr>dict_items := (dict_items (configs h self))(k \<mapsto> v)\<rparr>)\<rparr>"

text \<open>
  Lines 49-55: the callback is called; an \<^verbatim>\<open>Exception\<close> it raises is stored as
  \<^verbatim>\<open>_last_error\<close>; then the reset.
\<close>

definition setitem_notify ::
  "nat \<Rightarrow> env \<Rightarrow> nat \<Rightarrow> nat \<Rightarrow> heap \<Rightarrow> (exc + unit) \<times> heap \<times> event list" where
  "setitem_notify depth env self k h =
     (case call_attr depth env (callback (options h k)) [] h of
        (Inl e, h1) \<Rightarrow>
          if is_Exception e
          then (case setitem_reset env self k (set_last_error self (exc_str e) h1) of
                  (r, h2, evs) \<Rightarrow> (r, h2, CallbackCall k # evs))
          else (Inl e, h1, [CallbackCall k])
      | (Inr x, h1) \<Rightarrow>
          (case setitem_reset env self k h1 of
             (r, h2, evs) \<Rightarrow> (r, h2, CallbackCall k # evs)))"

text \<open>
  Lines 46-55, on the canonical key: the validator, the base class's
  \<^verbatim>\<open>__setitem__\<close>, the callback and the reset.
\<close>

definition setitem_validate ::
  "nat \<Rightarrow> env \<Rightarrow> nat \<Rightarrow> nat \<Rightarrow> pyval \<Rightarrow> heap \<Rightarrow> (exc + unit) \<times> heap \<times> event list" where
  "setitem_validate depth env self k v h =
     (case call_attr depth env (validate (options h k)) [] h of
        (Inl e, h1) \<Rightarrow> (Inl e, h1, [])
      | (Inr ok, h1) \<Rightarrow>
          if \<not> truthy ok then (Inl (ValueError ''Invalid value''), h1, [])
          else setitem_notify depth env self k (dict_setitem self k v h1))"

text \<open>\<^verbatim>\<open>Config.__setitem__(key, value)\<close>.\<close>

definition Config_setitem ::
  "nat \<Rightarrow> env \<Rightarrow> nat \<Rightarrow> key \<Rightarrow> pyval \<Rightarrow> heap \<Rightarrow> (exc + unit) \<times> heap \<times> event list" where
  "Config_setitem depth env self key v h =
     (case setitem_store depth env self key v h of
        (Inl e, h1) \<Rightarrow> (Inl e, h1, [])
      | (Inr k, h1) \<Rightarrow> setitem_validate depth env self k v h1)"

section \<open>The scope that answers a read\<close>

text \<open>
  The nearest scope of the parent chain of \<open>c\<close>, within \<open>depth\<close> delegations, whose
  \<^verbatim>\<open>self.__d\<close> has the name \<open>k\<close>. It is used to state where a read takes its value.
\<close>

fun holder :: "nat \<Rightarrow> heap \<Rightarrow> nat \<Rightarrow> string \<Rightarrow> nat option" where
  "holder 0 h c k = (if Config_d (configs h c) k = None then None else Some c)"
| "holder (Suc n) h c k =
     (if Config_d (configs h c) k = None
      then (case parent_config h c of None \<Rightarrow> None | Some p \<Rightarrow> holder n h p k)
      else Some c)"

section \<open>A concrete environment and heap\<close>

text \<open>
  User function 0 is a validator that refuses every value, \<^verbatim>\<open>lambda s: False\<close>;
  user function 1 is a callback that raises; user function 2 is the transform
  \<^verbatim>\<open>lambda s, v: v + 1\<close>. The path utility makes a relative path absolute and accepts
  strings only. The console's \<^verbatim>\<open>reset()\<close> does nothing. No string of the examples has
  a brace, so \<open>str_format\<close> is never consulted. The digit limit is the interpreter's
  default, 4300.
\<close>

definition env0 :: env where
  "env0 =
     \<lparr>fun_body = (\<lambda>i args h.
         if i = 0 then (Inr (PBool False), h)
         else if i = 1 then (Inl (UserError ''boom''), h)
         else (case args of
                 [OptionRef s, Val (PInt n)] \<Rightarrow> (Inr (PInt (n + 1)), h)
               | _ \<Rightarrow> (Inl (TypeError ''bad arguments''), h))),
      str_format = (\<lambda>s kw. None),
      path_expand = (\<lambda>v. case v of
                            PStr s \<Rightarrow> Inr (''/home/user/'' @ s)
                          | _ \<Rightarrow> Inl (TypeError ''expected str'')),
      console_reset = (\<lambda>con h. (Inr (), h)),
      max_str_digits = 4300\<rparr>"

text \<open>
  A heap with no Option yet and two scopes: scope 0 is owned by console 0, which has no
  parent; scope 1 is owned by console 1, whose parent is console 0. Every other scope
  has no console.
\<close>

definition heap0 :: heap where
  "heap0 =
     \<lparr>options = (\<lambda>r. \<lparr>name = [], description = PNone, required = False,
         choices = None, transform = Function DefaultLambda,
         validate = Function DefaultLambda, callback = Function DefaultLambda,
         config = None, old_value = PNone, reset = False\<rparr>),
      next_option = 0,
      configs = (\<lambda>c. \<lparr>Config_d = Map.empty, dict_items = Map.empty,
         console = (if c < 2 then Some c else None), last_error = None\<rparr>),
      consoles = (\<lambda>c. \<lparr>console_parent = (if c = 1 then Some 0 else None),
         console_config = c, console_dict = Map.empty\<rparr>),
      instances = (\<lambda>c. Map.empty)\<rparr>"

text \<open>The heap after \<^verbatim>\<open>config["X"] = "42"\<close> on scope 0.\<close>

definition heap_X42 :: heap where
  "heap_X42 = fst (snd (Config_setitem 0 env0 0 (KName ''X'') (PStr ''42'') heap0))"

text \<open>Two Options constructed independently with the same name, at addresses 0 and 1.\<close>

definition heap_two :: heap where
  "heap_two =
     snd (Option_init (default_args ''X'') (snd (Option_init (default_args ''X'') heap0)))"

text \<open>\<^verbatim>\<open>Option("MODE", validate=lambda s: False)\<close>.\<close>

definition refusing_args :: init_args where
  "refusing_args =
     (default_args ''MODE'')
       \<lparr>arg_validate := Some (CallableArg (Function (UserFun ''<lambda>'' 0)))\<rparr>"

text \<open>\<^verbatim>\<open>Option("MODE", callback=f)\<close> where \<^verbatim>\<open>f\<close> raises.\<close>

definition raising_args :: init_args where
  "raising_args =
     (default_args ''MODE'')
       \<lparr>arg_callback := Some (CallableArg (Function (UserFun ''<lambda>'' 1)))\<rparr>"

text \<open>That Option constructed at address 0, with \<^verbatim>\<open>_reset = True\<close> set on it.\<close>

definition heap_reset :: heap where
  "heap_reset =
     (let h = snd (Option_init raising_args heap0)
      in h\<lparr>options := (options h)(0 := (options h 0)\<lparr>reset := True\<rparr>)\<rparr>)"

text \<open>\<^verbatim>\<open>Option("TARGET", required=True)\<close>, and the heap after
  \<^verbatim>\<open>config[Option("TARGET", required=True)] = None\<close> on scope 0.\<close>

definition required_args :: init_args where
  "required_args = (default_args ''TARGET'')\<lparr>arg_required := True\<rparr>"

definition heap_required :: heap where
  "heap_required = fst (snd (Config_setitem 0 env0 0 (KTuple required_args) PNone heap0))"


text \<open>\<^verbatim>\<open>Option("N", transform=lambda s, v: v + 1)\<close>, and the heap after
  \<^verbatim>\<open>config[Option("N", transform=lambda s, v: v + 1)] = "41"\<close> on scope 0.\<close>

definition transform_args :: init_args where
  "transform_args =
     (default_args ''N'')
       \<lparr>arg_transform := Some (CallableArg (Function (UserFun ''<lambda>'' 2)))\<rparr>"

definition heap_N41 :: heap where
  "heap_N41 = fst (snd (Config_setitem 0 env0 0 (KTuple transform_args) (PStr ''41'') heap0))"

text \<open>The heap after \<^verbatim>\<open>Option("X")\<close>: the new Option is at address 0.\<close>

definition heap_option :: heap where
  "heap_option = snd (Option_init (default_args ''X'') heap0)"




section \<open>Unfolding rules\<close>

lemmas setitem_defs =
  Config_setitem_def setitem_store_def make_key_def Option_init_def default_args_def
  set_func_def Option_bind_def setitem_validate_def setitem_notify_def setitem_reset_def
  dict_setitem_def set_last_error_def

lemmas value_defs =
  Option_value_def Option_input_def Config_getitem_def expand_format_def py_format_def
  py_str_def py_int_def within_limit_def endswith_def isdigit_def isdigit_char_def
  isdecimal_char_def int_of_digits_def lower_def lower_char_def

section \<open>Reading a scope\<close>

lemma getitem_local:
  "Config_d (configs h c) k = Some (r, v) \<Longrightarrow> getitem n h c k = Inr v"
  by (cases n) simp_all

lemma getitem_delegates:
  "Config_d (configs h c) k = None \<Longrightarrow> parent_config h c = Some p \<Longrightarrow>
   getitem (Suc n) h c k = getitem n h p k"
  by simp

lemma getitem_no_parent:
  "Config_d (configs h c) k = None \<Longrightarrow> parent_config h c = None \<Longrightarrow>
   getitem n h c k = Inl (KeyError k)"
  by (cases n) simp_all

lemma getitem_holder:
  "getitem n h c k = Inr v \<longleftrightarrow>
   (\<exists>c' r. holder n h c k = Some c' \<and> Config_d (configs h c') k = Some (r, v))"
proof (induction n arbitrary: c)
  case 0
  show ?case by (auto split: option.splits)
next
  case (Suc n)
  show ?case
  proof (cases "Config_d (configs h c) k")
    case None
    then show ?thesis using Suc [of "the (parent_config h c)"]
      by (auto split: option.splits)
  next
    case (Some a)
    then show ?thesis by (cases a) auto
  qed
qed

lemma holder_stored:
  "holder n h c k = Some c' \<Longrightarrow> \<exists>r v. Config_d (configs h c') k = Some (r, v)"
  by (induction n arbitrary: c) (auto split: if_splits option.splits)

lemma heap_X42_store:
  "Config_d (configs heap_X42 c) = (if c = 0 then [''X'' \<mapsto> (0, PStr ''42'')] else Map.empty)"
  by (simp add: heap_X42_def setitem_defs heap0_def env0_def)

lemma heap_X42_parent:
  "parent_config heap_X42 c = (if c = 1 then Some 0 else None)"
  by (simp add: heap_X42_def setitem_defs heap0_def env0_def parent_config_def)

lemma heap_X42_option:
  "options heap_X42 0 =
     \<lparr>name = ''X'', description = PNone, required = False, choices = None,
      transform = Method DefaultLambda 0, validate = Method DefaultLambda 0,
      callback = Method DefaultLambda 0, config = Some 0, old_value = PNone,
      reset = False\<rparr>"
  by (simp add: heap_X42_def setitem_defs heap0_def env0_def)

text \<open>
  Claim C1, as the code has it. \<^verbatim>\<open>Config.__getitem__\<close> returns \<^verbatim>\<open>self.__d[key][1]\<close>,
  the raw value: when some scope of the parent chain holds the key (by name or by an
  Option of that name), the read returns the raw value stored in the nearest such scope.
\<close>

theorem C1_getitem_returns_raw:
  assumes "holder n h c k = Some c'"
  shows "\<exists>r v. Config_d (configs h c') k = Some (r, v)
           \<and> Config_getitem n h c (KName k) = Inr v
           \<and> (name (options h q) = k \<longrightarrow> Config_getitem n h c (KOption q) = Inr v)"
proof -
  from holder_stored [OF assms] obtain r v
    where st: "Config_d (configs h c') k = Some (r, v)" by blast
  with assms have "getitem n h c k = Inr v"
    by (simp add: getitem_holder)
  with st show ?thesis
    by (auto simp: Config_getitem_def)
qed

theorem C1_getitem_returns_raw_witness:
  "holder (Suc 0) heap_X42 1 ''X'' = Some 0
   \<and> Config_getitem (Suc 0) heap_X42 1 (KName ''X'') = Inr (PStr ''42'')
   \<and> Config_getitem (Suc 0) heap_X42 1 (KOption 0) = Inr (PStr ''42'')"
proof -
  have hd: "holder (Suc 0) heap_X42 1 ''X'' = Some 0"
    by (simp add: heap_X42_store heap_X42_parent)
  from C1_getitem_returns_raw [OF hd, of 0] obtain r v
    where "Config_d (configs heap_X42 0) ''X'' = Some (r, v)"
      and "Config_getitem (Suc 0) heap_X42 1 (KName ''X'') = Inr v"
      and "name (options heap_X42 0) = ''X'' \<longrightarrow>
           Config_getitem (Suc 0) heap_X42 1 (KOption 0) = Inr v"
    by blast
  with hd show ?thesis
    by (simp add: heap_X42_store heap_X42_option)
qed

text \<open>
  Claim C1 as stated fails: after \<^verbatim>\<open>config["X"] = "42"\<close> the read returns the string
  \<^verbatim>\<open>"42"\<close>, while the Option's resolved value is the integer 42.
\<close>

theorem C1_counterexample:
  "Config_getitem 0 heap_X42 0 (KOption 0) = Inr (PStr ''42'')
   \<and> fst (Option_value 0 env0 0 heap_X42) = Inr (PInt 42)
   \<and> Config_getitem 0 heap_X42 0 (KOption 0) \<noteq> fst (Option_value 0 env0 0 heap_X42)"
  by (simp add: value_defs heap_X42_store heap_X42_option env0_def)

section \<open>The canonical instance\<close>

lemma bind_new:
  "instances h c (name (options h a)) = None \<Longrightarrow>
   Option_bind a c h =
     (a, h\<lparr>options := (options h)(a := (options h a)\<lparr>config := Some c\<rparr>),
           instances := (instances h)(c := (instances h c)(name (options h a) \<mapsto> a))\<rparr>)"
  by (simp add: Option_bind_def Let_def)

lemma bind_old:
  "instances h c (name (options h a)) = Some r \<Longrightarrow>
   Option_bind a c h =
     (r, h\<lparr>options := (options h)(r := (options h r)\<lparr>config := Some c\<rparr>)\<rparr>)"
  by (simp add: Option_bind_def Let_def)

lemma bind_name:
  "name (options (snd (Option_bind a c h)) b) = name (options h b)"
  by (cases "instances h c (name (options h a))") (simp_all add: bind_new bind_old)

lemma bind_registers:
  "instances (snd (Option_bind a c h)) c (name (options h a)) = Some (fst (Option_bind a c h))"
  by (cases "instances h c (name (options h a))") (simp_all add: bind_new bind_old)

lemma bind_twice:
  assumes "name (options h a) = name (options h b)"
  shows "fst (Option_bind b c (snd (Option_bind a c h))) = fst (Option_bind a c h)"
proof -
  let ?h1 = "snd (Option_bind a c h)"
  have "instances ?h1 c (name (options ?h1 b)) = Some (fst (Option_bind a c h))"
    using bind_registers [of a c h] by (simp add: bind_name assms)
  then show ?thesis
    by (simp add: bind_old)
qed

lemma bind_twice_registry:
  assumes "name (options h a) = name (options h b)"
  shows "instances (snd (Option_bind b c (snd (Option_bind a c h)))) c (name (options h a))
           = Some (fst (Option_bind a c h))"
  using bind_registers [of b c "snd (Option_bind a c h)"] bind_twice [OF assms, of c]
  by (simp add: bind_name assms)

lemma Config_option_local:
  "Config_d (configs h c) k = Some (r, v) \<Longrightarrow> Config_option n h c k = Inr r"
  by (cases n) simp_all

lemma value_method_heap:
  "transform (options h r) = Method f s \<Longrightarrow> snd (Option_value d env r h) = h"
  by (simp add: Option_value_def Let_def split: sum.splits)

text \<open>Assigning a name that the scope has neither stored nor bound runs no user code.\<close>

lemma setitem_fresh_name:
  assumes "instances h c k = None" "Config_d (configs h c) k = None"
  shows "Config_setitem d env c (KName k) v h =
     (Inr (),
      h\<lparr>options := (options h)(next_option h :=
            \<lparr>name = k, description = PNone, required = False, choices = None,
             transform = Method DefaultLambda (next_option h),
             validate = Method DefaultLambda (next_option h),
             callback = Method DefaultLambda (next_option h),
             config = Some c, old_value = PNone, reset = False\<rparr>),
         next_option := Suc (next_option h),
         instances := (instances h)(c := (instances h c)(k \<mapsto> next_option h)),
         configs := (configs h)(c := (configs h c)
            \<lparr>Config_d := (Config_d (configs h c))(k \<mapsto> (next_option h, v)),
             dict_items := (dict_items (configs h c))(next_option h \<mapsto> v)\<rparr>)\<rparr>,
      [CallbackCall (next_option h)])"
  using assms by (simp add: setitem_defs Let_def)

lemma make_key_KName:
  "make_key (KName k) h =
     (Inr (next_option h),
      h\<lparr>options := (options h)(next_option h :=
            \<lparr>name = k, description = PNone, required = False, choices = None,
             transform = Method DefaultLambda (next_option h),
             validate = Method DefaultLambda (next_option h),
             callback = Method DefaultLambda (next_option h),
             config = None, old_value = PNone, reset = False\<rparr>),
         next_option := Suc (next_option h)\<rparr>)"
  by (simp add: make_key_def Option_init_def default_args_def set_func_def Let_def)

lemma default_hooks_finish:
  assumes "validate (options h k) = Method DefaultLambda s1"
      and "callback (options h k) = Method DefaultLambda s2"
      and "\<not> reset (options h k)"
  shows "setitem_validate d env c k v h = (Inr (), dict_setitem c k v h, [CallbackCall k])"
  using assms
  by (simp add: setitem_validate_def setitem_notify_def setitem_reset_def dict_setitem_def)

text \<open>
  Assigning a name whose canonical Option is already stored: either the computation of
  \<^verbatim>\<open>old_value\<close> raises and the store is as before, or the pair is stored under the
  same Option.
\<close>

lemma store_registered:
  assumes reg: "instances h c k = Some r"
      and nm: "name (options h r) = k"
      and st: "Config_d (configs h c) k = Some (r, v1)"
      and tr: "transform (options h r) = Method f s"
      and fresh: "r \<noteq> next_option h"
  shows "(\<exists>e h'. setitem_store d env c (KName k) v h = (Inl e, h')
            \<and> Config_d (configs h' c) = Config_d (configs h c))
       \<or> (\<exists>h'. setitem_store d env c (KName k) v h = (Inr r, h')
            \<and> Config_d (configs h' c) = (Config_d (configs h c))(k \<mapsto> (r, v))
            \<and> validate (options h' r) = validate (options h r)
            \<and> callback (options h' r) = callback (options h r)
            \<and> reset (options h' r) = reset (options h r))"
proof -
  let ?h0 = "snd (make_key (KName k) h)"
  have b: "Option_bind (next_option h) c ?h0 =
             (r, ?h0\<lparr>options := (options ?h0)(r := (options ?h0 r)\<lparr>config := Some c\<rparr>)\<rparr>)"
    using reg by (simp add: make_key_KName bind_old)
  let ?h1 = "?h0\<lparr>options := (options ?h0)(r := (options ?h0 r)\<lparr>config := Some c\<rparr>)\<rparr>"
  have tr1: "transform (options ?h1 r) = Method f s"
    using tr fresh by (simp add: make_key_KName)
  obtain x where val: "Option_value d env r ?h1 = (x, ?h1)"
    using value_method_heap [OF tr1, of d env] by (cases "Option_value d env r ?h1") simp
  have facts: "name (options ?h1 r) = k" "Config_d (configs ?h1 c) = Config_d (configs h c)"
    using nm fresh by (simp_all add: make_key_KName)
  show ?thesis
  proof (cases x)
    case (Inl e)
    then have "setitem_store d env c (KName k) v h = (Inl e, ?h1)"
      unfolding setitem_store_def using b val facts st
      by (simp add: make_key_KName)
    then show ?thesis using facts by simp
  next
    case (Inr ov)
    then show ?thesis
      unfolding setitem_store_def using b val facts st fresh
      by (simp add: make_key_KName Let_def)
  qed
qed

lemma setitem_same_name_twice:
  assumes "instances h c k = None" "Config_d (configs h c) k = None"
  shows "\<exists>x. Config_d (configs (fst (snd (Config_setitem d env c (KName k) v2
            (fst (snd (Config_setitem d env c (KName k) v1 h)))))) c) k
          = Some (next_option h, x)"
proof -
  let ?r = "next_option h"
  let ?h1 = "fst (snd (Config_setitem d env c (KName k) v1 h))"
  have h1: "instances ?h1 c k = Some ?r" "name (options ?h1 ?r) = k"
    "Config_d (configs ?h1 c) k = Some (?r, v1)"
    "transform (options ?h1 ?r) = Method DefaultLambda ?r"
    "validate (options ?h1 ?r) = Method DefaultLambda ?r"
    "callback (options ?h1 ?r) = Method DefaultLambda ?r"
    "\<not> reset (options ?h1 ?r)"
    "?r \<noteq> next_option ?h1"
    by (simp_all add: setitem_fresh_name [OF assms])
  from store_registered [OF h1(1-4) h1(8), of d env v2]
  show ?thesis
  proof (elim disjE exE conjE)
    fix e h'
    assume "setitem_store d env c (KName k) v2 ?h1 = (Inl e, h')"
      and "Config_d (configs h' c) = Config_d (configs ?h1 c)"
    then show ?thesis using h1(3) by (simp add: Config_setitem_def)
  next
    fix h'
    assume s: "setitem_store d env c (KName k) v2 ?h1 = (Inr ?r, h')"
      and d: "Config_d (configs h' c) = (Config_d (configs ?h1 c))(k \<mapsto> (?r, v2))"
      and "validate (options h' ?r) = validate (options ?h1 ?r)"
      and "callback (options h' ?r) = callback (options ?h1 ?r)"
      and "reset (options h' ?r) = reset (options ?h1 ?r)"
    with h1 have "setitem_validate d env c ?r v2 h' =
        (Inr (), dict_setitem c ?r v2 h', [CallbackCall ?r])"
      by (intro default_hooks_finish) simp_all
    with s d show ?thesis by (simp add: Config_setitem_def dict_setitem_def)
  qed
qed

text \<open>
  Claim C2. Binding two Options of the same name to the same scope, one after the other,
  returns the same instance both times, and that instance is the scope's registry entry
  for the name after each binding. Assigning the same name twice through
  \<^verbatim>\<open>Config.__setitem__\<close>, in a scope that had neither stored nor bound it, leaves the
  name stored with the same Option after the first and after the second assignment: the
  Option constructed for the first one.
\<close>

theorem C2_one_canonical_instance:
  "(name (options h a) = name (options h b) \<longrightarrow>
      fst (Option_bind b c (snd (Option_bind a c h))) = fst (Option_bind a c h)
    \<and> instances (snd (Option_bind a c h)) c (name (options h a))
        = Some (fst (Option_bind a c h))
    \<and> instances (snd (Option_bind b c (snd (Option_bind a c h)))) c (name (options h a))
        = Some (fst (Option_bind a c h)))
   \<and> (instances h c k = None \<and> Config_d (configs h c) k = None \<longrightarrow>
      Config_option n (fst (snd (Config_setitem d env c (KName k) v1 h))) c k
        = Inr (next_option h)
    \<and> Config_option n (fst (snd (Config_setitem d env c (KName k) v2
          (fst (snd (Config_setitem d env c (KName k) v1 h)))))) c k
        = Inr (next_option h))"
proof -
  have first: "Config_option n (fst (snd (Config_setitem d env c (KName k) v1 h))) c k
        = Inr (next_option h)"
    if "instances h c k = None" "Config_d (configs h c) k = None"
    using that by (simp add: setitem_fresh_name Config_option_local)
  have second: "Config_option n (fst (snd (Config_setitem d env c (KName k) v2
          (fst (snd (Config_setitem d env c (KName k) v1 h)))))) c k
        = Inr (next_option h)"
    if "instances h c k = None" "Config_d (configs h c) k = None"
    using setitem_same_name_twice [OF that, of d env v2 v1]
    by (auto simp: Config_option_local)
  have binds: "name (options h a) = name (options h b) \<longrightarrow>
      fst (Option_bind b c (snd (Option_bind a c h))) = fst (Option_bind a c h)
    \<and> instances (snd (Option_bind a c h)) c (name (options h a))
        = Some (fst (Option_bind a c h))
    \<and> instances (snd (Option_bind b c (snd (Option_bind a c h)))) c (name (options h a))
        = Some (fst (Option_bind a c h))"
    using bind_twice [of h a b c] bind_registers [of a c h] bind_twice_registry [of h a b c]
    by blast
  from first second binds show ?thesis
    by blast
qed

lemma heap_two_names:
  "name (options heap_two 0) = ''X''" "name (options heap_two (Suc 0)) = ''X''"
  "instances heap_two 0 ''X'' = None"
  by (simp_all add: heap_two_def Option_init_def default_args_def set_func_def heap0_def)

theorem C2_one_canonical_instance_witness:
  "name (options heap_two 0) = name (options heap_two 1)
   \<and> fst (Option_bind 0 0 heap_two) = 0
   \<and> fst (Option_bind 1 0 (snd (Option_bind 0 0 heap_two))) = 0
   \<and> instances heap0 0 ''X'' = None \<and> Config_d (configs heap0 0) ''X'' = None
   \<and> Config_option 0 (fst (snd (Config_setitem 0 env0 0 (KName ''X'') (PStr ''a'') heap0)))
        0 ''X'' = Inr 0
   \<and> Config_option 0 (fst (snd (Config_setitem 0 env0 0 (KName ''X'') (PStr ''b'')
        (fst (snd (Config_setitem 0 env0 0 (KName ''X'') (PStr ''a'') heap0)))))) 0 ''X''
        = Inr 0"
proof -
  have nm: "name (options heap_two 0) = name (options heap_two 1)"
    by (simp add: heap_two_names)
  have b: "fst (Option_bind 0 0 heap_two) = 0"
    by (simp add: bind_new heap_two_names)
  have fresh: "instances heap0 0 ''X'' = None \<and> Config_d (configs heap0 0) ''X'' = None"
    by (simp add: heap0_def)
  have nx: "next_option heap0 = 0"
    by (simp add: heap0_def)
  from C2_one_canonical_instance [where h = heap_two and a = 0 and b = 1 and c = 0]
       C2_one_canonical_instance [where h = heap0 and c = 0 and k = "''X''" and n = 0
         and d = 0 and env = env0 and ?v1.0 = "PStr ''a''" and ?v2.0 = "PStr ''b''"]
       nm b fresh nx
  show ?thesis by simp
qed

section \<open>Delegation to the parent scope\<close>

text \<open>
  Claim C3. For a name \<open>k\<close> absent from the store of scope \<open>c\<close>: when the owning console
  has a parent, the read from \<open>c\<close> is the read from the parent's scope (one level of the
  call stack further); when there is no parent, the read raises \<^verbatim>\<open>KeyError\<close>. When the
  parent's scope is another object and \<open>k\<close> is not yet bound in \<open>c\<close>, assigning \<open>k\<close> in
  \<open>c\<close> succeeds, the read from \<open>c\<close> then returns the assigned value, and the parent's
  scope is the same object as before.
\<close>

theorem C3_delegation_and_shadowing:
  assumes "Config_d (configs h c) k = None"
  shows "(parent_config h c = Some p \<longrightarrow>
            Config_getitem (Suc n) h c (KName k) = Config_getitem n h p (KName k))
       \<and> (parent_config h c = None \<longrightarrow> Config_getitem n h c (KName k) = Inl (KeyError k))
       \<and> (parent_config h c = Some p \<and> p \<noteq> c \<and> instances h c k = None \<longrightarrow>
            fst (Config_setitem d env c (KName k) v h) = Inr ()
          \<and> Config_getitem n (fst (snd (Config_setitem d env c (KName k) v h))) c (KName k)
              = Inr v
          \<and> configs (fst (snd (Config_setitem d env c (KName k) v h))) p = configs h p)"
proof -
  have rd: "parent_config h c = Some p \<longrightarrow>
            Config_getitem (Suc n) h c (KName k) = Config_getitem n h p (KName k)"
    using assms by (simp add: Config_getitem_def)
  have nf: "parent_config h c = None \<longrightarrow> Config_getitem n h c (KName k) = Inl (KeyError k)"
    using assms by (simp add: Config_getitem_def getitem_no_parent)
  have st: "fst (Config_setitem d env c (KName k) v h) = Inr ()
          \<and> Config_getitem n (fst (snd (Config_setitem d env c (KName k) v h))) c (KName k)
              = Inr v
          \<and> configs (fst (snd (Config_setitem d env c (KName k) v h))) p = configs h p"
    if "p \<noteq> c" "instances h c k = None"
    using that assms
    by (simp add: setitem_fresh_name Config_getitem_def getitem_local)
  from rd nf st show ?thesis by blast
qed

lemma heap_X42_registry: "instances heap_X42 1 ''X'' = None"
  by (simp add: heap_X42_def setitem_defs heap0_def env0_def)

theorem C3_delegation_and_shadowing_witness:
  "Config_d (configs heap_X42 1) ''X'' = None \<and> parent_config heap_X42 1 = Some 0
   \<and> Config_getitem (Suc 0) heap_X42 1 (KName ''X'') = Inr (PStr ''42'')
   \<and> Config_d (configs heap_X42 0) ''Y'' = None \<and> parent_config heap_X42 0 = None
   \<and> Config_getitem 0 heap_X42 0 (KName ''Y'') = Inl (KeyError ''Y'')
   \<and> fst (Config_setitem 0 env0 1 (KName ''X'') (PStr ''7'') heap_X42) = Inr ()
   \<and> Config_getitem 0 (fst (snd (Config_setitem 0 env0 1 (KName ''X'') (PStr ''7'')
        heap_X42))) 1 (KName ''X'') = Inr (PStr ''7'')
   \<and> configs (fst (snd (Config_setitem 0 env0 1 (KName ''X'') (PStr ''7'') heap_X42))) 0
        = configs heap_X42 0"
proof -
  have a1: "Config_d (configs heap_X42 1) ''X'' = None"
    by (simp add: heap_X42_store)
  have a0: "Config_d (configs heap_X42 0) ''Y'' = None"
    by (simp add: heap_X42_store)
  have p1: "parent_config heap_X42 1 = Some 0" and p0: "parent_config heap_X42 0 = None"
    by (simp_all add: heap_X42_parent)
  have up: "Config_getitem 0 heap_X42 0 (KName ''X'') = Inr (PStr ''42'')"
    by (simp add: Config_getitem_def heap_X42_store)
  from C3_delegation_and_shadowing [OF a1, of 0 0 0 env0 "PStr ''7''"]
       C3_delegation_and_shadowing [OF a0, of 0 0 0 env0 PNone]
       a1 a0 p1 p0 up heap_X42_registry
  show ?thesis by simp
qed

section \<open>Assignment: validation, callback and reset\<close>

text \<open>When lines 34-45 return, the pair is stored under the canonical key's name.\<close>

lemma setitem_store_stored:
  assumes "setitem_store depth env c key v h = (Inr k, h1)"
  shows "Config_d (configs h1 c) (name (options h1 k)) = Some (k, v)"
proof -
  obtain x0 h0 where mk: "make_key key h = (x0, h0)" by (cases "make_key key h")
  show ?thesis
  proof (cases x0)
    case (Inl e)
    with mk assms show ?thesis by (simp add: setitem_store_def)
  next
    case (Inr tmp)
    obtain k' hb where b: "Option_bind tmp c h0 = (k', hb)" by (cases "Option_bind tmp c h0")
    obtain y h2 where ov: "(if Config_d (configs hb c) (name (options hb k')) \<noteq> None
                      then Option_value depth env k' hb else (Inr PNone, hb)) = (y, h2)"
      by (cases "(if Config_d (configs hb c) (name (options hb k')) \<noteq> None
                      then Option_value depth env k' hb else (Inr PNone, hb))")
    show ?thesis
    proof (cases y)
      case (Inl e)
      with mk Inr b ov assms show ?thesis by (simp add: setitem_store_def)
    next
      case old: (Inr w)
      with mk Inr b ov assms show ?thesis
        by (auto simp: setitem_store_def Let_def)
    qed
  qed
qed

text \<open>
  Claim C4. When the assignment reaches the validator and the validator returns a false
  value, \<^verbatim>\<open>Config.__setitem__\<close> raises \<^verbatim>\<open>ValueError("Invalid value")\<close> and the heap it
  leaves is the one the validator returned: nothing is rolled back. The pair with the new
  raw value was stored before the validator ran, so a read of the name returns the new
  raw value, provided the validator itself has not written \<^verbatim>\<open>self.__d\<close>.
\<close>

theorem C4_invalid_value_is_kept:
  assumes "setitem_store depth env c key v h = (Inr k, h1)"
      and "call_attr depth env (validate (options h1 k)) [] h1 = (Inr ok, h2)"
      and "\<not> truthy ok"
  shows "Config_setitem depth env c key v h = (Inl (ValueError ''Invalid value''), h2, [])
       \<and> Config_d (configs h1 c) (name (options h1 k)) = Some (k, v)
       \<and> (Config_d (configs h2 c) = Config_d (configs h1 c) \<longrightarrow>
            Config_getitem n h2 c (KName (name (options h1 k))) = Inr v)"
proof -
  have st: "Config_d (configs h1 c) (name (options h1 k)) = Some (k, v)"
    using assms(1) by (rule setitem_store_stored)
  have "Config_setitem depth env c key v h = (Inl (ValueError ''Invalid value''), h2, [])"
    using assms by (simp add: Config_setitem_def setitem_validate_def)
  with st show ?thesis
    by (simp add: Config_getitem_def getitem_local)
qed

lemma env0_calls:
  "fun_body env0 0 args h = (Inr (PBool False), h)"
  "fun_body env0 (Suc 0) args h = (Inl (UserError ''boom''), h)"
  "console_reset env0 con h = (Inr (), h)"
  by (simp_all add: env0_def)

lemma refusing_store:
  "setitem_store 0 env0 0 (KTuple refusing_args) (PStr ''fast'') heap0 =
     (Inr 0, snd (setitem_store 0 env0 0 (KTuple refusing_args) (PStr ''fast'') heap0))"
  by (simp add: setitem_store_def make_key_def Option_init_def set_func_def Option_bind_def
        refusing_args_def default_args_def heap0_def Let_def)

lemma refusing_store_heap:
  "validate (options (snd (setitem_store 0 env0 0 (KTuple refusing_args) (PStr ''fast'') heap0)) 0)
     = Method (UserFun ''<lambda>'' 0) 0"
  "name (options (snd (setitem_store 0 env0 0 (KTuple refusing_args) (PStr ''fast'') heap0)) 0)
     = ''MODE''"
  by (simp_all add: setitem_store_def make_key_def Option_init_def set_func_def
        Option_bind_def refusing_args_def default_args_def heap0_def Let_def)

theorem C4_invalid_value_is_kept_witness:
  "fst (Config_setitem 0 env0 0 (KTuple refusing_args) (PStr ''fast'') heap0)
     = Inl (ValueError ''Invalid value'')
   \<and> Config_getitem 0
        (fst (snd (Config_setitem 0 env0 0 (KTuple refusing_args) (PStr ''fast'') heap0)))
        0 (KName ''MODE'') = Inr (PStr ''fast'')"
proof -
  let ?h1 = "snd (setitem_store 0 env0 0 (KTuple refusing_args) (PStr ''fast'') heap0)"
  have v: "call_attr 0 env0 (validate (options ?h1 0)) [] ?h1 = (Inr (Val (PBool False)), ?h1)"
    by (simp add: refusing_store_heap env0_calls)
  have f: "\<not> truthy (Val (PBool False))"
    by simp
  from C4_invalid_value_is_kept [OF refusing_store v f, of 0]
  show ?thesis by (simp add: refusing_store_heap)
qed

text \<open>
  Claim C5. When the assignment reaches the callback and the callback raises an
  \<^verbatim>\<open>Exception\<close> \<open>e\<close>, the message of \<open>e\<close> is stored as the scope's \<^verbatim>\<open>_last_error\<close> and
  the assignment goes on to the reset stage; its outcome is that of the reset stage, not
  \<open>e\<close>. Without \<^verbatim>\<open>_reset\<close> the assignment returns normally. A read of the name returns the
  new raw value, provided the validator and the callback have not written \<^verbatim>\<open>self.__d\<close>.
\<close>

theorem C5_callback_error_is_swallowed:
  assumes "setitem_store depth env c key v h = (Inr k, h1)"
      and "call_attr depth env (validate (options h1 k)) [] h1 = (Inr ok, h2)"
      and "truthy ok"
      and "call_attr depth env (callback (options (dict_setitem c k v h2) k)) []
             (dict_setitem c k v h2) = (Inl e, h3)"
      and "is_Exception e"
  shows "last_error (configs (set_last_error c (exc_str e) h3) c) = Some (exc_str e)
       \<and> Config_setitem depth env c key v h =
           (case setitem_reset env c k (set_last_error c (exc_str e) h3) of
              (r, h4, evs) \<Rightarrow> (r, h4, CallbackCall k # evs))
       \<and> (\<not> reset (options h3 k) \<longrightarrow>
            Config_setitem depth env c key v h =
              (Inr (), set_last_error c (exc_str e) h3, [CallbackCall k]))
       \<and> (Config_d (configs h3 c) = Config_d (configs h1 c) \<longrightarrow>
            Config_getitem n (set_last_error c (exc_str e) h3) c
              (KName (name (options h1 k))) = Inr v)"
proof -
  have st: "Config_d (configs h1 c) (name (options h1 k)) = Some (k, v)"
    using assms(1) by (rule setitem_store_stored)
  have run: "Config_setitem depth env c key v h =
           (case setitem_reset env c k (set_last_error c (exc_str e) h3) of
              (r, h4, evs) \<Rightarrow> (r, h4, CallbackCall k # evs))"
    using assms by (simp add: Config_setitem_def setitem_validate_def setitem_notify_def)
  have noreset: "\<not> reset (options h3 k) \<Longrightarrow>
      setitem_reset env c k (set_last_error c (exc_str e) h3) =
        (Inr (), set_last_error c (exc_str e) h3, [])"
    by (simp add: setitem_reset_def set_last_error_def)
  have le: "last_error (configs (set_last_error c (exc_str e) h3) c) = Some (exc_str e)"
    by (simp add: set_last_error_def)
  have rd: "Config_d (configs h3 c) = Config_d (configs h1 c) \<Longrightarrow>
            Config_getitem n (set_last_error c (exc_str e) h3) c
              (KName (name (options h1 k))) = Inr v"
    using st by (simp add: Config_getitem_def set_last_error_def getitem_local)
  from le run noreset rd show ?thesis by simp
qed

lemma raising_store:
  "setitem_store 0 env0 0 (KTuple raising_args) (PStr ''fast'') heap0 =
     (Inr 0, snd (setitem_store 0 env0 0 (KTuple raising_args) (PStr ''fast'') heap0))"
  by (simp add: setitem_store_def make_key_def Option_init_def set_func_def Option_bind_def
        raising_args_def default_args_def heap0_def Let_def)

lemma raising_store_heap:
  "validate (options (snd (setitem_store 0 env0 0 (KTuple raising_args) (PStr ''fast'') heap0)) 0)
     = Method DefaultLambda 0"
  "callback (options (snd (setitem_store 0 env0 0 (KTuple raising_args) (PStr ''fast'') heap0)) 0)
     = Method (UserFun ''<lambda>'' 1) 0"
  "name (options (snd (setitem_store 0 env0 0 (KTuple raising_args) (PStr ''fast'') heap0)) 0)
     = ''MODE''"
  "\<not> reset (options (snd (setitem_store 0 env0 0 (KTuple raising_args) (PStr ''fast'') heap0)) 0)"
  by (simp_all add: setitem_store_def make_key_def Option_init_def set_func_def
        Option_bind_def raising_args_def default_args_def heap0_def Let_def)

theorem C5_callback_error_is_swallowed_witness:
  "fst (Config_setitem 0 env0 0 (KTuple raising_args) (PStr ''fast'') heap0) = Inr ()
   \<and> last_error (configs
        (fst (snd (Config_setitem 0 env0 0 (KTuple raising_args) (PStr ''fast'') heap0))) 0)
       = Some ''boom''
   \<and> Config_getitem 0
        (fst (snd (Config_setitem 0 env0 0 (KTuple raising_args) (PStr ''fast'') heap0)))
        0 (KName ''MODE'') = Inr (PStr ''fast'')"
proof -
  let ?h1 = "snd (setitem_store 0 env0 0 (KTuple raising_args) (PStr ''fast'') heap0)"
  let ?h2 = "dict_setitem 0 0 (PStr ''fast'') ?h1"
  have v: "call_attr 0 env0 (validate (options ?h1 0)) [] ?h1 = (Inr (OptionRef 0), ?h1)"
    by (simp add: raising_store_heap)
  have t: "truthy (OptionRef 0)"
    by simp
  have cb: "call_attr 0 env0 (callback (options ?h2 0)) [] ?h2 = (Inl (UserError ''boom''), ?h2)"
    by (simp add: raising_store_heap dict_setitem_def env0_calls)
  have ex: "is_Exception (UserError ''boom'')"
    by simp
  note th = C5_callback_error_is_swallowed [OF raising_store v t cb ex, of 0]
  have nr: "\<not> reset (options ?h2 0)"
    by (simp add: raising_store_heap dict_setitem_def)
  have fr: "Config_d (configs ?h2 0) = Config_d (configs ?h1 0)"
    by (simp add: dict_setitem_def)
  from th nr have r: "Config_setitem 0 env0 0 (KTuple raising_args) (PStr ''fast'') heap0 =
      (Inr (), set_last_error 0 (exc_str (UserError ''boom'')) ?h2, [CallbackCall 0])"
    by blast
  from th fr have rd: "Config_getitem 0 (set_last_error 0 (exc_str (UserError ''boom'')) ?h2) 0
      (KName (name (options ?h1 0))) = Inr (PStr ''fast'')"
    by blast
  show ?thesis
    unfolding r using rd by (simp add: raising_store_heap set_last_error_def)
qed

text \<open>
  Claim C7. When the assignment reaches the callback, the callback returns or raises an
  \<^verbatim>\<open>Exception\<close>, the key's \<^verbatim>\<open>_reset\<close> is true and the scope has a console, the calls
  the assignment makes are the callback and then the console's \<^verbatim>\<open>reset()\<close>, once; the
  reset runs on the heap the callback left, with the error recorded when it raised, and
  its outcome is the outcome of the assignment.
\<close>

theorem C7_reset_once_after_callback:
  assumes "setitem_store depth env c key v h = (Inr k, h1)"
      and "call_attr depth env (validate (options h1 k)) [] h1 = (Inr ok, h2)"
      and "truthy ok"
      and "call_attr depth env (callback (options (dict_setitem c k v h2) k)) []
             (dict_setitem c k v h2) = (res, h3)"
      and "case res of Inl e \<Rightarrow> is_Exception e | Inr x \<Rightarrow> True"
      and "reset (options h3 k)"
      and "console (configs h3 c) = Some con"
  shows "snd (snd (Config_setitem depth env c key v h)) = [CallbackCall k, ResetCall con]
       \<and> Config_setitem depth env c key v h =
           (case console_reset env con
                   (case res of Inl e \<Rightarrow> set_last_error c (exc_str e) h3 | Inr x \<Rightarrow> h3) of
              (r, h4) \<Rightarrow> (r, h4, [CallbackCall k, ResetCall con]))"
proof (cases res)
  case (Inl e)
  with assms show ?thesis
    by (simp add: Config_setitem_def setitem_validate_def setitem_notify_def
          setitem_reset_def set_last_error_def split: prod.splits)
next
  case (Inr x)
  with assms show ?thesis
    by (simp add: Config_setitem_def setitem_validate_def setitem_notify_def
          setitem_reset_def split: prod.splits)
qed

lemma reset_store:
  "setitem_store 0 env0 0 (KOption 0) (PStr ''fast'') heap_reset =
     (Inr 0, snd (setitem_store 0 env0 0 (KOption 0) (PStr ''fast'') heap_reset))"
  by (simp add: setitem_store_def make_key_def Option_init_def set_func_def Option_bind_def
        heap_reset_def raising_args_def default_args_def heap0_def Let_def)

lemma reset_store_heap:
  "validate (options (snd (setitem_store 0 env0 0 (KOption 0) (PStr ''fast'') heap_reset)) 0)
     = Method DefaultLambda 0"
  "callback (options (snd (setitem_store 0 env0 0 (KOption 0) (PStr ''fast'') heap_reset)) 0)
     = Method (UserFun ''<lambda>'' 1) 0"
  "reset (options (snd (setitem_store 0 env0 0 (KOption 0) (PStr ''fast'') heap_reset)) 0)"
  "console (configs (snd (setitem_store 0 env0 0 (KOption 0) (PStr ''fast'') heap_reset)) 0)
     = Some 0"
  by (simp_all add: setitem_store_def make_key_def Option_init_def set_func_def
        Option_bind_def heap_reset_def raising_args_def default_args_def heap0_def Let_def)

theorem C7_reset_once_after_callback_witness:
  "Config_setitem 0 env0 0 (KOption 0) (PStr ''fast'') heap_reset =
     (Inr (),
      set_last_error 0 ''boom''
        (dict_setitem 0 0 (PStr ''fast'')
           (snd (setitem_store 0 env0 0 (KOption 0) (PStr ''fast'') heap_reset))),
      [CallbackCall 0, ResetCall 0])"
proof -
  let ?h1 = "snd (setitem_store 0 env0 0 (KOption 0) (PStr ''fast'') heap_reset)"
  let ?h2 = "dict_setitem 0 0 (PStr ''fast'') ?h1"
  have v: "call_attr 0 env0 (validate (options ?h1 0)) [] ?h1 = (Inr (OptionRef 0), ?h1)"
    by (simp add: reset_store_heap)
  have t: "truthy (OptionRef 0)"
    by simp
  have cb: "call_attr 0 env0 (callback (options ?h2 0)) [] ?h2 = (Inl (UserError ''boom''), ?h2)"
    by (simp add: reset_store_heap dict_setitem_def env0_calls)
  have ex: "case Inl (UserError ''boom'') :: exc + pyobj of
              Inl e \<Rightarrow> is_Exception e | Inr x \<Rightarrow> True"
    by simp
  have rs: "reset (options ?h2 0)" and cn: "console (configs ?h2 0) = Some 0"
    by (simp_all add: reset_store_heap dict_setitem_def)
  from C7_reset_once_after_callback [OF reset_store v t cb ex rs cn]
  show ?thesis
    by (simp add: env0_calls)
qed

section \<open>Required options\<close>

text \<open>The first stage of \<^verbatim>\<open>Option.value\<close>: a required Option whose raw input is
  \<^verbatim>\<open>None\<close> raises \<^verbatim>\<open>ValueError\<close>.\<close>

lemma required_none_raises:
  assumes "Option_input depth h r = Inr PNone" and "required (options h r)"
  shows "Option_value depth env r h =
           (Inl (ValueError (name (options h r) @ '' must be defined'')), h)"
  using assms by (simp add: Option_value_def)

text \<open>A false value that is not \<^verbatim>\<open>None\<close> passes the first stage: the test is
  \<^verbatim>\<open>value is None\<close>.\<close>

lemma required_falsy_resolves:
  assumes "Option_input depth h r = Inr v" and "v = PInt 0 \<or> v = PBool False"
      and "\<not> endswith (name (options h r)) ''FOLDER''"
      and "\<not> endswith (name (options h r)) ''WORKSPACE''"
      and "transform (options h r) = Method f s"
  shows "Option_value depth env r h = (Inr v, h)"
proof -
  have "expand_format env h r v = Inr v"
    using assms(2)
    by (auto simp: expand_format_def py_str_def within_limit_def Let_def split: option.splits)
  with assms show ?thesis
    by (auto simp: Option_value_def)
qed

lemma heap_required_facts:
  "fst (Config_setitem 0 env0 0 (KTuple required_args) PNone heap0) = Inr ()"
  "Config_d (configs heap_required 0) = [''TARGET'' \<mapsto> (0, PNone)]"
  "instances heap_required 0 = [''TARGET'' \<mapsto> 0]"
  "options heap_required 0 =
     \<lparr>name = ''TARGET'', description = PNone, required = True, choices = None,
      transform = Method DefaultLambda 0, validate = Method DefaultLambda 0,
      callback = Method DefaultLambda 0, config = Some 0, old_value = PNone,
      reset = False\<rparr>"
  by (simp_all add: heap_required_def required_args_def setitem_defs heap0_def Let_def)

text \<open>
  Claim C6, on the code. \<^verbatim>\<open>config[Option("TARGET", required=True)] = None\<close> succeeds
  and leaves the Option without a defined value: its resolution raises
  \<^verbatim>\<open>ValueError("TARGET must be defined")\<close>. Assigning 0 afterwards raises the same error
  from the computation of \<^verbatim>\<open>old_value\<close>, before anything is stored: the raw value is
  still \<^verbatim>\<open>None\<close> and the resolution still raises.
\<close>

theorem C6_required_none_blocks_assignment:
  "fst (Config_setitem 0 env0 0 (KTuple required_args) PNone heap0) = Inr ()
   \<and> fst (Option_value 0 env0 0 heap_required) = Inl (ValueError ''TARGET must be defined'')
   \<and> fst (Config_setitem 0 env0 0 (KOption 0) (PInt 0) heap_required)
       = Inl (ValueError ''TARGET must be defined'')
   \<and> Config_getitem 0 (fst (snd (Config_setitem 0 env0 0 (KOption 0) (PInt 0) heap_required)))
        0 (KOption 0) = Inr PNone
   \<and> fst (Option_value 0 env0 0
        (fst (snd (Config_setitem 0 env0 0 (KOption 0) (PInt 0) heap_required))))
       = Inl (ValueError ''TARGET must be defined'')"
proof -
  have "fst (Option_value 0 env0 0 heap_required) = Inl (ValueError ''TARGET must be defined'')
   \<and> fst (Config_setitem 0 env0 0 (KOption 0) (PInt 0) heap_required)
       = Inl (ValueError ''TARGET must be defined'')
   \<and> Config_getitem 0 (fst (snd (Config_setitem 0 env0 0 (KOption 0) (PInt 0) heap_required)))
        0 (KOption 0) = Inr PNone
   \<and> fst (Option_value 0 env0 0
        (fst (snd (Config_setitem 0 env0 0 (KOption 0) (PInt 0) heap_required))))
       = Inl (ValueError ''TARGET must be defined'')"
    by (simp add: heap_required_facts(2-4) Config_setitem_def setitem_store_def make_key_def
          Option_bind_def Option_value_def Option_input_def Config_getitem_def Let_def)
  with heap_required_facts(1) show ?thesis by blast
qed

section \<open>The value pipeline\<close>











text \<open>\<^verbatim>\<open>int(str(n)) == n\<close>: the two conversions agree.\<close>

lemma int_of_digits_snoc:
  "int_of_digits (s @ [c]) = 10 * int_of_digits s + (int (of_char c) - 48)"
  by (simp add: int_of_digits_def)

lemma int_of_digits_str: "int_of_digits (digits_of_nat n) = int n"
proof (induction n rule: digits_of_nat.induct)
  case (1 n)
  show ?case
  proof (cases "n < 10")
    case True
    then show ?thesis by (simp add: int_of_digits_def)
  next
    case False
    with 1 have "int_of_digits (digits_of_nat (n div 10)) = int (n div 10)" by simp
    moreover have "int n = 10 * int (n div 10) + int (n mod 10)"
      by presburger
    ultimately show ?thesis using False
      by (subst digits_of_nat.simps) (simp add: int_of_digits_snoc del: digits_of_nat.simps)
  qed
qed

















section \<open>Hooks are stored as bound methods\<close>

text \<open>Every hook attribute that the constructor sets is a bound method.\<close>

lemma set_func_method:
  "set_func func nm self = Inr a \<Longrightarrow> \<exists>f. a = Method f self"
  by (auto simp: set_func_def split: option.splits hookarg.splits attr.splits)

lemma Option_init_hooks:
  assumes "Option_init a h = (Inr r, h')"
  shows "\<exists>f g k. transform (options h' r) = Method f r
               \<and> validate (options h' r) = Method g r
               \<and> callback (options h' r) = Method k r"
proof -
  let ?vd = "if arg_validate a = None
                \<and> (case arg_choices a of
                      ChoicesNone \<Rightarrow> None
                    | ChoicesBool \<Rightarrow> Some [PStr ''true'', PStr ''false'']
                    | ChoicesList xs \<Rightarrow> Some xs) \<noteq> None
             then Some (CallableArg (Function ChoicesValidator)) else arg_validate a"
  obtain t where t: "set_func (arg_transform a) ''transform'' (next_option h) = Inr t"
    using assms by (cases "set_func (arg_transform a) ''transform'' (next_option h)")
                   (simp_all add: Option_init_def Let_def)
  obtain v where v: "set_func ?vd ''validate'' (next_option h) = Inr v"
    using assms t by (cases "set_func ?vd ''validate'' (next_option h)")
                     (simp_all add: Option_init_def Let_def)
  obtain cb where cb: "set_func (arg_callback a) ''callback'' (next_option h) = Inr cb"
    using assms t v by (cases "set_func (arg_callback a) ''callback'' (next_option h)")
                       (simp_all add: Option_init_def Let_def)
  from assms t v cb have r: "r = next_option h"
    and "transform (options h' r) = t" and "validate (options h' r) = v"
    and "callback (options h' r) = cb"
    by (auto simp: Option_init_def Let_def)
  with set_func_method [OF t] set_func_method [OF v] set_func_method [OF cb]
  show ?thesis by auto
qed

text \<open>With a bound method as transform, \<^verbatim>\<open>Option.value\<close> calls no user function: the
  result is the same whatever the user functions do.\<close>

lemma py_format_fun_body:
  "py_format (env\<lparr>fun_body := body\<rparr>) s kw = py_format env s kw"
  by (simp add: py_format_def)

lemma limit_fun_body:
  "max_str_digits (env\<lparr>fun_body := body\<rparr>) = max_str_digits env"
  by simp

lemma expand_format_fun_body:
  "expand_format (env\<lparr>fun_body := body\<rparr>) h r v = expand_format env h r v"
  unfolding expand_format_def py_format_fun_body limit_fun_body ..

lemma method_transform_never_called:
  assumes "transform (options h r) = Method f s"
  shows "Option_value depth (env\<lparr>fun_body := body\<rparr>) r h = Option_value depth env r h"
proof -
  have pe: "path_expand (env\<lparr>fun_body := body\<rparr>) = path_expand env"
    by simp
  show ?thesis
    unfolding Option_value_def expand_format_fun_body limit_fun_body pe assms attr.case ..
qed

lemma heap_N41_facts:
  "Config_d (configs heap_N41 0) = [''N'' \<mapsto> (0, PStr ''41'')]"
  "options heap_N41 0 =
     \<lparr>name = ''N'', description = PNone, required = False, choices = None,
      transform = Method (UserFun ''<lambda>'' 2) 0, validate = Method DefaultLambda 0,
      callback = Method DefaultLambda 0, config = Some 0, old_value = PNone,
      reset = False\<rparr>"
  by (simp_all add: heap_N41_def transform_args_def setitem_defs heap0_def Let_def)

text \<open>
  Claim C9, on the code. After
  \<^verbatim>\<open>config[Option("N", transform=lambda s, v: v + 1)] = "41"\<close> the transform attribute is
  a bound method of that lambda, and the resolved value is the coerced value 41: the
  transform, which returns 42 on it, has not been applied, because a bound method is not
  an instance of the function type.
\<close>

theorem C9_transform_is_not_applied:
  "transform (options heap_N41 0) = Method (UserFun ''<lambda>'' 2) 0
   \<and> is_function (transform (options heap_N41 0)) = False
   \<and> fst (Option_value 0 env0 0 heap_N41) = Inr (PInt 41)
   \<and> fst (call_attr 0 env0 (transform (options heap_N41 0)) [Val (PInt 41)] heap_N41)
       = Inr (Val (PInt 42))"
  by (simp add: value_defs heap_N41_facts env0_def)

text \<open>\<^verbatim>\<open>copy()\<close> hands the bound methods of \<open>self\<close> to the constructor, which refuses the
  first of them.\<close>

lemma copy_raises:
  assumes "transform (options h r) = Method f s"
  shows "Option_copy r h = (Inl (PyException ''Bad transform lambda''), h)"
  using assms by (simp add: Option_copy_def Option_init_def set_func_def Let_def)

lemma copy_of_constructed_raises:
  assumes "Option_init a h = (Inr r, h')"
  shows "Option_copy r h' = (Inl (PyException ''Bad transform lambda''), h')"
  using Option_init_hooks [OF assms] copy_raises by blast

text \<open>
  Claim C10, on the code. \<^verbatim>\<open>Option("X")\<close> succeeds, and \<^verbatim>\<open>copy()\<close> on the new Option
  raises \<^verbatim>\<open>Exception("Bad transform lambda")\<close>: no copy is made.
\<close>

theorem C10_copy_raises:
  "Option_init (default_args ''X'') heap0 = (Inr 0, heap_option)
   \<and> Option_copy 0 heap_option = (Inl (PyException ''Bad transform lambda''), heap_option)"
proof -
  have c: "Option_init (default_args ''X'') heap0 = (Inr 0, heap_option)"
    by (simp add: heap_option_def Option_init_def default_args_def set_func_def heap0_def
          Let_def)
  from c copy_of_constructed_raises [OF c] show ?thesis by simp
qed

end
